theory Spec2Isabelle
  imports Main "HOL-Library.Sublist"
begin

section \<open>The packaging script of thermod-monitor-mqtt\<close>

text \<open>
  The script \<^verbatim>\<open>setup.py\<close> reads the version out of the program file
  \<^verbatim>\<open>thermod-monitor-mqtt\<close>, reads \<^verbatim>\<open>README.md\<close>, and hands the packaging
  metadata to \<^verbatim>\<open>setup\<close>. Python strings are modelled as \<^typ>\<open>string\<close> (a
  character beyond ASCII is its UTF-8 sequence), exceptions as the left summand of a
  sum type, the dictionary \<^verbatim>\<open>main_ns\<close> as a map, and the files as a map from a path
  to the characters stored in the file.
\<close>

subsection \<open>Values, errors and files\<close>

datatype py_value = Str string | Builtins

datatype py_error =
    FileNotFoundError
  | TypeError
  | KeyError
  | OutsideFragment

type_synonym namespace = "string \<rightharpoonup> py_value"

type_synonym files = "string \<rightharpoonup> string"

definition LF :: char where
  "LF = CHR 0x0A"

definition CR :: char where
  "CR = CHR 0x0D"

definition BSL :: char where
  "BSL = CHR 0x5C"

subsection \<open>Text-mode file access\<close>

text \<open>
  A file opened in text mode with the default \<^verbatim>\<open>newline\<close> is read with universal
  newlines: a carriage return followed by a line feed, and a carriage return alone,
  arrive as one line feed.
\<close>

fun universal_newlines :: "string \<Rightarrow> string" where
  "universal_newlines [] = []"
| "universal_newlines [c] = [if c = CR then LF else c]"
| "universal_newlines (c # d # cs) =
     (if c = CR then
        (if d = LF then LF # universal_newlines cs else LF # universal_newlines (d # cs))
      else c # universal_newlines (d # cs))"

text \<open>
  \<^verbatim>\<open>open(path, 'rt')\<close> and \<^verbatim>\<open>open(path, 'r')\<close>, read to the end: a missing file
  raises, a file gives its text.
\<close>

definition open_text :: "files \<Rightarrow> string \<Rightarrow> py_error + string" where
  "open_text fs path =
     (case fs path of None \<Rightarrow> Inl FileNotFoundError
      | Some stored \<Rightarrow> Inr (universal_newlines stored))"

text \<open>
  \<^verbatim>\<open>for line in script\<close>: the lines of the text, each with its line feed kept;
  a last line without line feed is a line too, and an empty text has no line.
\<close>

fun file_lines :: "string \<Rightarrow> string list" where
  "file_lines [] = []"
| "file_lines (c # cs) =
     (if c = LF then [c] # file_lines cs
      else (case file_lines cs of [] \<Rightarrow> [[c]] | l # ls \<Rightarrow> (c # l) # ls))"

subsection \<open>String operations\<close>

text \<open>\<^verbatim>\<open>s.find(sub)\<close>: the lowest index at which \<open>sub\<close> occurs in \<open>s\<close>, or \<open>-1\<close>.\<close>

fun str_find :: "string \<Rightarrow> string \<Rightarrow> int" where
  "str_find [] sub = (if sub = [] then 0 else - 1)"
| "str_find (c # cs) sub =
     (if prefix sub (c # cs) then 0
      else (let r = str_find cs sub in if r < 0 then - 1 else r + 1))"

definition version_marker :: string where
  "version_marker = ''__version__''"

definition coding_header :: string where
  "coding_header = ''# -*- coding: utf-8 -*-'' @ [LF]"

text \<open>\<^verbatim>\<open>'# -*- coding: utf-8 -*-\n{}'.format(line)\<close>\<close>

definition format_version_str :: "string \<Rightarrow> string" where
  "format_version_str line = coding_header @ line"

subsection \<open>The scan for the version line\<close>

text \<open>
  The loop of \<^verbatim>\<open>get_version\<close>: \<^verbatim>\<open>version_str\<close> starts as \<^verbatim>\<open>None\<close>; the first
  line whose \<^verbatim>\<open>find('__version__')\<close> is \<open>0\<close> sets it and breaks.
\<close>

fun scan_lines :: "string list \<Rightarrow> string option" where
  "scan_lines [] = None"
| "scan_lines (line # rest) =
     (if str_find line version_marker = 0 then Some (format_version_str line)
      else scan_lines rest)"

subsection \<open>A fragment of Python for \<^verbatim>\<open>exec\<close>\<close>

text \<open>
  \<^verbatim>\<open>exec\<close> is the interpreter's. The model runs the programs made of blank lines,
  comment lines and assignments \<^verbatim>\<open>NAME = EXPR\<close> written at column 0 on one line,
  where \<^verbatim>\<open>EXPR\<close> is a string literal or \<^verbatim>\<open>open(LITERAL).read()\<close>. For every other
  program it answers \<open>OutsideFragment\<close>, which stands for no statement about the
  interpreter.
\<close>

text \<open>Between the tokens of a line, space, tabulator and form feed separate alike.\<close>

definition is_ws :: "char \<Rightarrow> bool" where
  "is_ws c = (c = CHR '' '' \<or> c = CHR 0x09 \<or> c = CHR 0x0C)"

definition is_digit :: "char \<Rightarrow> bool" where
  "is_digit c = (let n = (of_char c :: nat) in 48 \<le> n \<and> n \<le> 57)"

definition is_ident_start :: "char \<Rightarrow> bool" where
  "is_ident_start c =
     (let n = (of_char c :: nat)
      in (65 \<le> n \<and> n \<le> 90) \<or> (97 \<le> n \<and> n \<le> 122) \<or> c = CHR ''_'')"

definition is_ident_char :: "char \<Rightarrow> bool" where
  "is_ident_char c = (is_ident_start c \<or> is_digit c)"

text \<open>Names that an assignment cannot bind.\<close>

definition reserved :: "string list" where
  "reserved =
     [''False'', ''None'', ''True'', ''and'', ''as'', ''assert'', ''async'', ''await'',
      ''break'', ''class'', ''continue'', ''def'', ''del'', ''elif'', ''else'', ''except'',
      ''finally'', ''for'', ''from'', ''global'', ''if'', ''import'', ''in'', ''is'',
      ''lambda'', ''nonlocal'', ''not'', ''or'', ''pass'', ''raise'', ''return'', ''try'',
      ''while'', ''with'', ''yield'', ''__debug__'']"

definition is_quote :: "char \<Rightarrow> bool" where
  "is_quote c = (c = CHR 0x27 \<or> c = CHR 0x22)"

text \<open>
  Characters that cannot stand inside a literal or a comment on one line: the line
  ends and the null character.
\<close>

definition bad_char :: "char \<Rightarrow> bool" where
  "bad_char c = (c = LF \<or> c = CR \<or> c = CHR 0x00)"

text \<open>Nothing, or a comment, up to the end of the line.\<close>

definition blank_or_comment :: "string \<Rightarrow> bool" where
  "blank_or_comment s =
     (case dropWhile is_ws s of [] \<Rightarrow> True
      | c # cs \<Rightarrow> c = CHR ''#'' \<and> list_all (\<lambda>x. \<not> bad_char x) cs)"

subsubsection \<open>String literals\<close>

text \<open>
  The text of a literal is found first: after the opening quote of a short string it
  runs to the next quote that no backslash precedes, after the three opening quotes
  of a long string to the next three. The result is that text and what follows the
  closing quotes.
\<close>

fun short_body :: "char \<Rightarrow> string \<Rightarrow> (string \<times> string) option" where
  "short_body q [] = None"
| "short_body q (c # cs) =
     (if c = q then Some ([], cs)
      else if c = BSL then
        (case cs of [] \<Rightarrow> None
         | d # ds \<Rightarrow>
             if bad_char d then None
             else map_option (\<lambda>(b, r). (c # d # b, r)) (short_body q ds))
      else if bad_char c then None
      else map_option (\<lambda>(b, r). (c # b, r)) (short_body q cs))"

fun long_body :: "char \<Rightarrow> string \<Rightarrow> (string \<times> string) option" where
  "long_body q [] = None"
| "long_body q (c # cs) =
     (if c = q \<and> take 2 cs = [q, q] then Some ([], drop 2 cs)
      else if c = BSL then
        (case cs of [] \<Rightarrow> None
         | d # ds \<Rightarrow>
             if bad_char d then None
             else map_option (\<lambda>(b, r). (c # d # b, r)) (long_body q ds))
      else if bad_char c then None
      else map_option (\<lambda>(b, r). (c # b, r)) (long_body q cs))"

text \<open>Digits of escapes, and the number they write in a base.\<close>

definition is_octal :: "char \<Rightarrow> bool" where
  "is_octal c = (let n = (of_char c :: nat) in 48 \<le> n \<and> n \<le> 55)"

definition is_hex :: "char \<Rightarrow> bool" where
  "is_hex c =
     (let n = (of_char c :: nat)
      in (48 \<le> n \<and> n \<le> 57) \<or> (65 \<le> n \<and> n \<le> 70) \<or> (97 \<le> n \<and> n \<le> 102))"

definition digit_val :: "char \<Rightarrow> nat" where
  "digit_val c =
     (let n = (of_char c :: nat)
      in if n \<le> 57 then n - 48 else if n \<le> 70 then n - 55 else n - 87)"

definition number :: "nat \<Rightarrow> string \<Rightarrow> nat" where
  "number base ds = foldl (\<lambda>a c. base * a + digit_val c) 0 ds"

text \<open>The UTF-8 sequence of a code point; surrogates and numbers past the last code
  point have none.\<close>

definition utf8 :: "nat \<Rightarrow> string option" where
  "utf8 n =
     (if n < 0x80 then Some [char_of n]
      else if n < 0x800 then Some [char_of (0xC0 + n div 64), char_of (0x80 + n mod 64)]
      else if n < 0x10000 then
        (if 0xD800 \<le> n \<and> n \<le> 0xDFFF then None
         else Some [char_of (0xE0 + n div 4096), char_of (0x80 + n div 64 mod 64),
                    char_of (0x80 + n mod 64)])
      else if n < 0x110000 then
        Some [char_of (0xF0 + n div 262144), char_of (0x80 + n div 4096 mod 64),
              char_of (0x80 + n div 64 mod 64), char_of (0x80 + n mod 64)]
      else None)"

text \<open>The escapes of one letter.\<close>

definition simple_escape :: "char \<Rightarrow> char option" where
  "simple_escape d =
     (if d = BSL \<or> is_quote d then Some d
      else if d = CHR ''a'' then Some (CHR 0x07)
      else if d = CHR ''b'' then Some (CHR 0x08)
      else if d = CHR ''f'' then Some (CHR 0x0C)
      else if d = CHR ''n'' then Some (CHR 0x0A)
      else if d = CHR ''r'' then Some (CHR 0x0D)
      else if d = CHR ''t'' then Some (CHR 0x09)
      else if d = CHR ''v'' then Some (CHR 0x0B)
      else None)"

definition code_point :: "nat \<Rightarrow> string option \<Rightarrow> string option" where
  "code_point n rest =
     (case utf8 n of None \<Rightarrow> None | Some bs \<Rightarrow> map_option ((@) bs) rest)"

text \<open>
  The value of the text of a literal without the prefix \<^verbatim>\<open>r\<close>: escapes of one
  letter, octal escapes of one to three digits, \<^verbatim>\<open>\x\<close>, \<^verbatim>\<open>\u\<close> and \<^verbatim>\<open>\U\<close> with two,
  four and eight hexadecimal digits; a backslash before any other character stays.
  \<^verbatim>\<open>\N{...}\<close> needs the table of character names and is left out.
\<close>

function unescape :: "string \<Rightarrow> string option" where
  "unescape [] = Some []"
| "unescape (c # cs) =
     (if c \<noteq> BSL then map_option ((#) c) (unescape cs)
      else (case cs of [] \<Rightarrow> None
        | d # ds \<Rightarrow>
            (case simple_escape d of Some e \<Rightarrow> map_option ((#) e) (unescape ds)
             | None \<Rightarrow>
                 if is_octal d then
                   (let n = length (takeWhile is_octal (take 2 ds))
                    in code_point (number 8 (d # take n ds)) (unescape (drop n ds)))
                 else if d = CHR ''x'' then
                   (if 2 \<le> length ds \<and> list_all is_hex (take 2 ds)
                    then code_point (number 16 (take 2 ds)) (unescape (drop 2 ds)) else None)
                 else if d = CHR ''u'' then
                   (if 4 \<le> length ds \<and> list_all is_hex (take 4 ds)
                    then code_point (number 16 (take 4 ds)) (unescape (drop 4 ds)) else None)
                 else if d = CHR ''U'' then
                   (if 8 \<le> length ds \<and> list_all is_hex (take 8 ds)
                    then code_point (number 16 (take 8 ds)) (unescape (drop 8 ds)) else None)
                 else if d = CHR ''N'' then None
                 else map_option (\<lambda>r. c # d # r) (unescape ds))))"
  by pat_completeness auto
termination
  by (relation "measure length") auto

text \<open>
  A string literal at the start of a text: an optional prefix \<^verbatim>\<open>r\<close>, \<^verbatim>\<open>R\<close>,
  \<^verbatim>\<open>u\<close> or \<^verbatim>\<open>U\<close>, the quotes, the text and the closing quotes. The result is the
  string it denotes and the text after it. Formatted literals, which the oldest
  interpreter that \<^verbatim>\<open>python_requires\<close> admits does not know, and bytes literals,
  which denote no string, are not read.
\<close>

definition parse_string :: "string \<Rightarrow> (string \<times> string) option" where
  "parse_string s =
     (let raw = (s \<noteq> [] \<and> (hd s = CHR ''r'' \<or> hd s = CHR ''R''));
          s1 = (if s \<noteq> [] \<and> hd s \<in> set ''rRuU'' then tl s else s)
      in case s1 of [] \<Rightarrow> None
         | q # s2 \<Rightarrow>
             if \<not> is_quote q then None
             else (case (if take 2 s2 = [q, q] then long_body q (drop 2 s2)
                         else short_body q s2) of
                     None \<Rightarrow> None
                   | Some (b, rest) \<Rightarrow>
                       if raw then Some (b, rest)
                       else map_option (\<lambda>v. (v, rest)) (unescape b)))"

subsubsection \<open>Expressions and statements\<close>

datatype py_expr = Literal string | ReadFile string

datatype py_stmt = Skip | Assign string py_expr

definition parse_expr :: "string \<Rightarrow> (py_expr \<times> string) option" where
  "parse_expr s =
     (if prefix ''open('' s then
        (case parse_string (drop 5 s) of None \<Rightarrow> None
         | Some (p, r) \<Rightarrow>
             if prefix '').read()'' r then Some (ReadFile p, drop 8 r) else None)
      else map_option (\<lambda>(v, r). (Literal v, r)) (parse_string s))"

definition parse_assign :: "string \<Rightarrow> py_stmt option" where
  "parse_assign s =
     (let name = takeWhile is_ident_char s;
          r1 = dropWhile is_ws (dropWhile is_ident_char s)
      in if name = [] \<or> is_digit (hd name) \<or> name \<in> set reserved then None
         else (case r1 of [] \<Rightarrow> None
           | e # r2 \<Rightarrow>
               if e \<noteq> CHR ''='' then None
               else (case parse_expr (dropWhile is_ws r2) of None \<Rightarrow> None
                 | Some (ex, r3) \<Rightarrow>
                     if blank_or_comment r3 then Some (Assign name ex) else None)))"

definition strip_lf :: "string \<Rightarrow> string" where
  "strip_lf l = (if l \<noteq> [] \<and> last l = LF then butlast l else l)"

definition parse_line :: "string \<Rightarrow> py_stmt option" where
  "parse_line l =
     (let s = strip_lf l in if blank_or_comment s then Some Skip else parse_assign s)"

fun parse_lines :: "string list \<Rightarrow> py_stmt list option" where
  "parse_lines [] = Some []"
| "parse_lines (l # ls) =
     (case parse_line l of None \<Rightarrow> None
      | Some st \<Rightarrow> map_option ((#) st) (parse_lines ls))"

text \<open>
  A literal evaluates to its string. \<^verbatim>\<open>open(path).read()\<close> reads the file in text
  mode, as long as the names \<^verbatim>\<open>open\<close> and \<^verbatim>\<open>__builtins__\<close> still have their
  first meaning.
\<close>

fun eval_expr :: "files \<Rightarrow> namespace \<Rightarrow> py_expr \<Rightarrow> py_error + py_value" where
  "eval_expr fs ns (Literal v) = Inr (Str v)"
| "eval_expr fs ns (ReadFile path) =
     (if ns ''open'' = None \<and> ns ''__builtins__'' = Some Builtins then
        (case open_text fs path of Inl e \<Rightarrow> Inl e | Inr txt \<Rightarrow> Inr (Str txt))
      else Inl OutsideFragment)"

fun exec_stmt :: "files \<Rightarrow> namespace \<Rightarrow> py_stmt \<Rightarrow> py_error + namespace" where
  "exec_stmt fs ns Skip = Inr ns"
| "exec_stmt fs ns (Assign n ex) =
     (case eval_expr fs ns ex of Inl e \<Rightarrow> Inl e | Inr v \<Rightarrow> Inr (ns(n \<mapsto> v)))"

fun exec_stmts :: "files \<Rightarrow> namespace \<Rightarrow> py_stmt list \<Rightarrow> py_error + namespace" where
  "exec_stmts fs ns [] = Inr ns"
| "exec_stmts fs ns (st # sts) =
     (case exec_stmt fs ns st of Inl e \<Rightarrow> Inl e | Inr ns' \<Rightarrow> exec_stmts fs ns' sts)"

text \<open>
  \<^verbatim>\<open>exec(source, globals)\<close>: a source that is \<^verbatim>\<open>None\<close> raises \<^verbatim>\<open>TypeError\<close>;
  otherwise the whole source is compiled, \<^verbatim>\<open>__builtins__\<close> is added to the globals
  when absent, and the statements run in them.
\<close>

fun py_exec :: "files \<Rightarrow> string option \<Rightarrow> namespace \<Rightarrow> py_error + namespace" where
  "py_exec fs None ns = Inl TypeError"
| "py_exec fs (Some src) ns =
     (case parse_lines (file_lines src) of None \<Rightarrow> Inl OutsideFragment
      | Some sts \<Rightarrow>
          exec_stmts fs
            (case ns ''__builtins__'' of None \<Rightarrow> ns(''__builtins__'' \<mapsto> Builtins)
             | Some b \<Rightarrow> ns)
            sts)"

subsection \<open>The functions of the script\<close>

definition get_version :: "files \<Rightarrow> py_error + py_value" where
  "get_version fs =
     (case open_text fs ''thermod-monitor-mqtt'' of Inl e \<Rightarrow> Inl e
      | Inr script \<Rightarrow>
          (case py_exec fs (scan_lines (file_lines script)) Map.empty of Inl e \<Rightarrow> Inl e
           | Inr main_ns \<Rightarrow>
               (case main_ns ''__version__'' of None \<Rightarrow> Inl KeyError | Some v \<Rightarrow> Inr v)))"

definition get_readme :: "files \<Rightarrow> py_error + string" where
  "get_readme fs =
     (case open_text fs ''README.md'' of Inl e \<Rightarrow> Inl e | Inr txt \<Rightarrow> Inr txt)"

text \<open>The keyword arguments of the call of \<^verbatim>\<open>setup\<close>.\<close>

record setup_args =
  name :: string
  version :: py_value
  description :: string
  author :: string
  author_email :: string
  long_description :: string
  long_description_content_type :: string
  url :: string
  license :: string
  classifiers :: "string list"
  scripts :: "string list"
  python_requires :: string
  install_requires :: "string list"

text \<open>
  The module body: the arguments are evaluated in the order written, so
  \<^verbatim>\<open>get_version()\<close> runs before \<^verbatim>\<open>get_readme()\<close>, and an exception in either
  leaves \<^verbatim>\<open>setup\<close> uncalled. The result is the error, or the arguments with which
  \<^verbatim>\<open>setup\<close> is called.
\<close>

definition setup_py :: "files \<Rightarrow> py_error + setup_args" where
  "setup_py fs =
     (case get_version fs of Inl e \<Rightarrow> Inl e
      | Inr v \<Rightarrow>
          (case get_readme fs of Inl e \<Rightarrow> Inl e
           | Inr txt \<Rightarrow>
               Inr \<lparr> name = ''thermod-monitor-mqtt'',
                     version = v,
                     description = ''Forward Thermod temperature and current status to an MQTT broker'',
                     author = ''Simone Rossetto'',
                     author_email = ''simros85@gmail.com'',
                     long_description = txt,
                     long_description_content_type = ''text/markdown'',
                     url = ''https://github.com/droscy/thermod-monitor-mqtt'',
                     license = ''GPL-3.0+'',
                     classifiers =
                       [''Programming Language :: Python :: 3'',
                        ''License :: OSI Approved :: GNU General Public License v3 or later (GPLv3+)'',
                        ''Environment :: Console'',
                        ''Intended Audience :: End Users/Desktop'',
                        ''Operating System :: OS Independent'',
                        ''Topic :: Home Automation''],
                     scripts = [''thermod-monitor-mqtt''],
                     python_requires = ''>=3.5'',
                     install_requires =
                       [''thermod >=1.0.0, <2.0.0'',
                        ''requests >=2.20.0'',
                        ''paho-mqtt >=1.5.0''] \<rparr>))"

subsection \<open>The line that decides the version\<close>

text \<open>The first line of a text that starts with the marker, if there is one.\<close>

definition first_version_line :: "string \<Rightarrow> string option" where
  "first_version_line txt = List.find (prefix version_marker) (file_lines txt)"

subsection \<open>Sample inputs\<close>

definition release_line :: string where
  "release_line =
     ''__version__ = '' @ CHR 0x27 # ''1.0.2'' @ CHR 0x27 # ''  # release'' @ [LF]"

definition remark_line :: string where
  "remark_line = ''# __version__ is set below'' @ [LF]"

definition example_script :: string where
  "example_script =
     ''#!/usr/bin/env python3'' @ [LF] @ remark_line @ release_line
       @ ''__version__ = '' @ CHR 0x27 # ''9.9'' @ [CHR 0x27]"

definition example_readme :: string where
  "example_readme = ''# Thermod monitor'' @ [LF] @ ''Forwards the status.'' @ [LF]"

definition example_files :: files where
  "example_files =
     [''thermod-monitor-mqtt'' \<mapsto> example_script, ''README.md'' \<mapsto> example_readme]"

definition example_args :: setup_args where
  "example_args =
     \<lparr> name = ''thermod-monitor-mqtt'',
       version = Str ''1.0.2'',
       description = ''Forward Thermod temperature and current status to an MQTT broker'',
       author = ''Simone Rossetto'',
       author_email = ''simros85@gmail.com'',
       long_description = example_readme,
       long_description_content_type = ''text/markdown'',
       url = ''https://github.com/droscy/thermod-monitor-mqtt'',
       license = ''GPL-3.0+'',
       classifiers =
         [''Programming Language :: Python :: 3'',
          ''License :: OSI Approved :: GNU General Public License v3 or later (GPLv3+)'',
          ''Environment :: Console'',
          ''Intended Audience :: End Users/Desktop'',
          ''Operating System :: OS Independent'',
          ''Topic :: Home Automation''],
       scripts = [''thermod-monitor-mqtt''],
       python_requires = ''>=3.5'',
       install_requires =
         [''thermod >=1.0.0, <2.0.0'', ''requests >=2.20.0'', ''paho-mqtt >=1.5.0''] \<rparr>"

text \<open>The same deciding line among other lines.\<close>

definition other_script :: string where
  "other_script = ''import sys'' @ [LF] @ release_line @ ''__version__ = 5'' @ [LF]"

definition other_files :: files where
  "other_files = [''thermod-monitor-mqtt'' \<mapsto> other_script]"

text \<open>Two assignments of the version.\<close>

definition two_versions_script :: string where
  "two_versions_script =
     ''__version__ = '' @ CHR 0x27 # ''1.0'' @ CHR 0x27 # LF
       # ''__version__ = '' @ CHR 0x27 # ''2.0'' @ [CHR 0x27, LF]"

definition two_versions_files :: files where
  "two_versions_files =
     [''thermod-monitor-mqtt'' \<mapsto> two_versions_script, ''README.md'' \<mapsto> example_readme]"

text \<open>No line that starts with the marker.\<close>

definition no_version_script :: string where
  "no_version_script = ''#!/usr/bin/env python3'' @ [LF] @ remark_line @ ''VERSION = 1'' @ [LF]"

definition no_version_files :: files where
  "no_version_files =
     [''thermod-monitor-mqtt'' \<mapsto> no_version_script, ''README.md'' \<mapsto> example_readme]"

text \<open>An assignment to a longer name.\<close>

definition extra_name_line :: string where
  "extra_name_line = ''__version__extra = '' @ CHR 0x27 # ''1'' @ [CHR 0x27, LF]"

definition extra_name_files :: files where
  "extra_name_files =
     [''thermod-monitor-mqtt'' \<mapsto> ''import sys'' @ [LF] @ extra_name_line,
      ''README.md'' \<mapsto> example_readme]"

text \<open>A literal in double quotes with a tabulator, an escape and lines ending in CR LF.\<close>

definition escaped_script :: string where
  "escaped_script =
     ''# -*- coding: utf-8 -*-'' @ [CR, LF]
       @ ''__version__ = '' @ CHR 0x22 # ''1.0'' @ CHR 0x09 # ''rc'' @ BSL # ''x31'' @ CHR 0x22
       # [CR, LF]"

definition escaped_files :: files where
  "escaped_files = [''thermod-monitor-mqtt'' \<mapsto> escaped_script]"

text \<open>A version line that reads the file it stands in.\<close>

definition self_read_line :: string where
  "self_read_line =
     ''__version__ = open('' @ CHR 0x27 # ''thermod-monitor-mqtt'' @ CHR 0x27
       # '').read()'' @ [LF]"

definition self_read_a :: files where
  "self_read_a = [''thermod-monitor-mqtt'' \<mapsto> self_read_line @ ''# a'' @ [LF]]"

definition self_read_b :: files where
  "self_read_b = [''thermod-monitor-mqtt'' \<mapsto> self_read_line @ ''# b'' @ [LF]]"

text \<open>A description stored with lines ending in CR LF.\<close>

definition crlf_readme :: string where
  "crlf_readme = ''# Thermod monitor'' @ [CR, LF] @ ''Forwards the status.'' @ [CR, LF]"

definition crlf_files :: files where
  "crlf_files =
     [''thermod-monitor-mqtt'' \<mapsto> example_script, ''README.md'' \<mapsto> crlf_readme]"

section \<open>Lemmas\<close>

subsection \<open>The scan\<close>

lemma str_find_zero_iff: "str_find s sub = 0 \<longleftrightarrow> prefix sub s"
  by (cases s) (auto simp: Let_def)


lemma scan_lines_first:
  assumes "list_all (\<lambda>l. \<not> prefix version_marker l) pre" "prefix version_marker line"
  shows "scan_lines (pre @ line # post) = Some (format_version_str line)"
  using assms by (induction pre) (simp_all add: str_find_zero_iff)

lemma scan_lines_none:
  "list_all (\<lambda>l. \<not> prefix version_marker l) ls \<Longrightarrow> scan_lines ls = None"
  by (induction ls) (simp_all add: str_find_zero_iff)

lemma scan_lines_skip:
  "\<not> prefix version_marker l \<Longrightarrow> scan_lines (pre @ l # post) = scan_lines (pre @ post)"
  by (induction pre) (simp_all add: str_find_zero_iff)

lemma scan_lines_selected:
  "scan_lines ls = Some v \<Longrightarrow> \<exists>l \<in> set ls. prefix version_marker l \<and> v = format_version_str l"
  by (induction ls) (auto simp: str_find_zero_iff split: if_splits)

lemma format_version_str_inject:
  "format_version_str a = format_version_str b \<longleftrightarrow> a = b"
  by (simp add: format_version_str_def)

subsection \<open>Universal newlines\<close>

lemma universal_newlines_no_CR: "CR \<notin> set (universal_newlines s)"
  by (induction s rule: universal_newlines.induct) (auto simp: CR_def LF_def)

lemma universal_newlines_id: "CR \<notin> set s \<Longrightarrow> universal_newlines s = s"
  by (induction s rule: universal_newlines.induct) auto

lemma universal_newlines_length: "length (universal_newlines s) \<le> length s"
  by (induction s rule: universal_newlines.induct) auto

subsection \<open>Lines\<close>

lemma file_lines_concat: "concat (file_lines s) = s"
  by (induction s) (auto split: list.splits)

lemma file_lines_Nil_iff: "file_lines s = [] \<longleftrightarrow> s = []"
  by (cases s) (auto split: list.splits)

lemma file_lines_no_LF: "LF \<notin> set s \<Longrightarrow> s \<noteq> [] \<Longrightarrow> file_lines s = [s]"
proof (induction s)
  case Nil
  then show ?case by simp
next
  case (Cons c s)
  show ?case
  proof (cases "s = []")
    case True
    with Cons.prems show ?thesis by simp
  next
    case False
    with Cons have "file_lines s = [s]" by simp
    with Cons.prems show ?thesis by auto
  qed
qed

lemma file_lines_append_LF:
  "LF \<notin> set s \<Longrightarrow> file_lines (s @ LF # rest) = (s @ [LF]) # file_lines rest"
  by (induction s) (auto split: list.splits)

text \<open>A line of a text is not empty and has no line feed before its last character.\<close>

lemma file_lines_line:
  "l \<in> set (file_lines s) \<Longrightarrow> l \<noteq> [] \<and> LF \<notin> set (butlast l)"
proof (induction s arbitrary: l)
  case Nil
  then show ?case by simp
next
  case (Cons c s)
  show ?case
  proof (cases "c = LF")
    case True
    with Cons show ?thesis by auto
  next
    case False
    show ?thesis
    proof (cases "file_lines s")
      case Nil
      with False Cons.prems show ?thesis by simp
    next
      case (Cons l' ls)
      then have l': "l' \<noteq> []" "LF \<notin> set (butlast l')"
        using Cons.IH [of l'] by simp_all
      from Cons False Cons.prems have "l = c # l' \<or> l \<in> set ls"
        by simp
      then show ?thesis
      proof
        assume "l = c # l'"
        with l' False show ?thesis by auto
      next
        assume "l \<in> set ls"
        with Cons Cons.IH [of l] show ?thesis by simp
      qed
    qed
  qed
qed

lemma line_file_lines:
  assumes "l \<noteq> []" "LF \<notin> set (butlast l)"
  shows "file_lines l = [l]"
proof (cases "last l = LF")
  case True
  from assms(1) have "l = butlast l @ LF # []"
    using True by (metis append_butlast_last_id)
  moreover have "file_lines (butlast l @ LF # []) = (butlast l @ [LF]) # file_lines []"
    using assms(2) by (rule file_lines_append_LF)
  ultimately show ?thesis by simp
next
  case False
  from assms(1) have "set l = insert (last l) (set (butlast l))"
    by (metis append_butlast_last_id list.simps(15) rotate1.simps(2) set_rotate1)
  with False assms(2) have "LF \<notin> set l" by auto
  then show ?thesis using assms(1) by (rule file_lines_no_LF)
qed

lemma strip_lf_no_LF:
  assumes "LF \<notin> set (butlast l)"
  shows "LF \<notin> set (strip_lf l)"
proof (cases "l \<noteq> [] \<and> last l = LF")
  case True
  with assms show ?thesis by (simp add: strip_lf_def)
next
  case False
  show ?thesis
  proof (cases "l = []")
    case True
    then show ?thesis by (simp add: strip_lf_def)
  next
    case ne: False
    then have "set l = insert (last l) (set (butlast l))"
      by (metis append_butlast_last_id list.simps(15) rotate1.simps(2) set_rotate1)
    with False ne assms show ?thesis by (auto simp: strip_lf_def)
  qed
qed

lemma strip_lf_prefix: "prefix (strip_lf l) l"
  by (simp add: strip_lf_def prefixeq_butlast)

lemma format_version_str_lines:
  assumes "l \<noteq> []" "LF \<notin> set (butlast l)"
  shows "file_lines (format_version_str l) = [coding_header, l]"
proof -
  define h where "h = ''# -*- coding: utf-8 -*-''"
  have "LF \<notin> set h"
    by (simp add: h_def LF_def)
  then have "file_lines (h @ LF # l) = (h @ [LF]) # file_lines l"
    by (rule file_lines_append_LF)
  moreover have "format_version_str l = h @ LF # l"
    by (simp add: format_version_str_def coding_header_def h_def)
  moreover have "coding_header = h @ [LF]"
    by (simp add: coding_header_def h_def)
  ultimately show ?thesis
    by (simp only: line_file_lines [OF assms])
qed

subsection \<open>The fragment\<close>

lemma takeWhile_all_stop: "list_all P xs \<Longrightarrow> \<not> P y \<Longrightarrow> takeWhile P (xs @ y # ys) = xs"
  by (induction xs) auto

lemma dropWhile_all_stop: "list_all P xs \<Longrightarrow> \<not> P y \<Longrightarrow> dropWhile P (xs @ y # ys) = y # ys"
  by (induction xs) auto

lemma is_ws_not_ident: "is_ws c \<Longrightarrow> \<not> is_ident_char c"
  by (auto simp: is_ws_def is_ident_char_def is_ident_start_def is_digit_def)

lemma ws_then_equals_head:
  assumes "list_all is_ws ws"
  shows "\<exists>y ys. ws @ CHR ''='' # r = y # ys \<and> \<not> is_ident_char y"
proof (cases ws)
  case Nil
  then show ?thesis
    by (simp add: is_ident_char_def is_ident_start_def is_digit_def)
next
  case (Cons a as)
  with assms show ?thesis
    by (simp add: is_ws_not_ident)
qed

lemma ident_char_facts:
  assumes "is_ident_char c"
  shows "c \<noteq> LF" and "\<not> is_ws c" and "c \<noteq> CHR ''#''"
  using assms
  by (auto simp: is_ident_char_def is_ident_start_def is_digit_def LF_def is_ws_def)

text \<open>A string literal starts with a quote or a prefix letter.\<close>

lemma parse_string_head:
  assumes "parse_string s = Some x"
  shows "s \<noteq> [] \<and> (is_quote (hd s) \<or> hd s \<in> set ''rRuU'')"
proof (cases s)
  case Nil
  with assms show ?thesis by (simp add: parse_string_def)
next
  case (Cons c cs)
  show ?thesis
  proof (cases "c \<in> set ''rRuU''")
    case True
    with Cons show ?thesis by simp
  next
    case False
    with Cons assms have "is_quote c"
      by (auto simp: parse_string_def split: if_splits)
    with Cons show ?thesis by simp
  qed
qed

lemma literal_head_facts:
  assumes "is_quote c \<or> c \<in> set ''rRuU''"
  shows "\<not> is_ws c" and "c \<noteq> CHR ''o''"
  using assms by (auto simp: is_quote_def is_ws_def)

lemma parse_expr_literal:
  assumes "parse_string s = Some (v, r)"
  shows "parse_expr s = Some (Literal v, r)"
proof -
  from parse_string_head [OF assms] obtain c cs where s: "s = c # cs"
    and "is_quote c \<or> c \<in> set ''rRuU''"
    by (cases s) auto
  then have "c \<noteq> CHR ''o''"
    by (simp add: literal_head_facts(2))
  then have "\<not> prefix ''open('' s"
    by (simp add: s)
  with assms show ?thesis
    by (simp add: parse_expr_def)
qed

lemma parse_expr_head:
  assumes "parse_expr s = Some x"
  shows "s \<noteq> [] \<and> \<not> is_ws (hd s)"
proof (cases "prefix ''open('' s")
  case True
  then obtain t where "s = ''open('' @ t"
    by (auto simp: prefix_def)
  then show ?thesis
    by (simp add: is_ws_def)
next
  case False
  with assms obtain y where "parse_string s = Some y"
    by (auto simp: parse_expr_def)
  from parse_string_head [OF this] show ?thesis
    using literal_head_facts(1) by blast
qed

text \<open>The shape of an assignment, without the line end.\<close>

lemma parse_assign_shape:
  assumes nm: "nm \<noteq> []" "list_all is_ident_char nm" "\<not> is_digit (hd nm)" "nm \<notin> set reserved"
    and ws: "list_all is_ws ws1" "list_all is_ws ws2"
    and rhs: "parse_expr rhs = Some (ex, trail)"
    and trail: "blank_or_comment trail"
  shows "parse_assign (nm @ ws1 @ CHR ''='' # ws2 @ rhs) = Some (Assign nm ex)"
proof -
  let ?r2 = "ws2 @ rhs"
  let ?r1 = "ws1 @ CHR ''='' # ?r2"
  obtain y ys where y: "?r1 = y # ys" "\<not> is_ident_char y"
    using ws_then_equals_head [OF ws(1)] by blast
  have name: "takeWhile is_ident_char (nm @ ?r1) = nm"
    unfolding y(1) using nm(2) y(2) by (rule takeWhile_all_stop)
  have "dropWhile is_ident_char (nm @ ?r1) = ?r1"
    unfolding y(1) using nm(2) y(2) by (rule dropWhile_all_stop)
  moreover have "dropWhile is_ws ?r1 = CHR ''='' # ?r2"
    using ws(1) by (rule dropWhile_all_stop) (simp add: is_ws_def)
  ultimately have r1: "dropWhile is_ws (dropWhile is_ident_char (nm @ ?r1)) = CHR ''='' # ?r2"
    by simp
  from parse_expr_head [OF rhs] obtain c cs where c: "rhs = c # cs" "\<not> is_ws c"
    by (cases rhs) auto
  have r2: "dropWhile is_ws ?r2 = rhs"
    unfolding c(1) using ws(2) c(2) by (rule dropWhile_all_stop)
  show ?thesis
    unfolding parse_assign_def Let_def name r1
    using nm trail by (simp add: r2 rhs)
qed

lemma parse_line_header: "parse_line coding_header = Some Skip"
  by (simp add: parse_line_def coding_header_def strip_lf_def LF_def blank_or_comment_def
      is_ws_def bad_char_def CR_def)

text \<open>
  The program that \<open>get_version\<close> builds from a line with an assignment: the
  comment of the header and the assignment.
\<close>

lemma parse_version_str:
  assumes line: "l \<noteq> []" "LF \<notin> set (butlast l)"
    and shape: "strip_lf l = nm @ ws1 @ CHR ''='' # ws2 @ rhs"
    and nm: "nm \<noteq> []" "list_all is_ident_char nm" "\<not> is_digit (hd nm)" "nm \<notin> set reserved"
    and ws: "list_all is_ws ws1" "list_all is_ws ws2"
    and rhs: "parse_expr rhs = Some (ex, trail)"
    and trail: "blank_or_comment trail"
  shows "parse_lines (file_lines (format_version_str l)) = Some [Skip, Assign nm ex]"
proof -
  obtain c cs where c: "nm = c # cs"
    using nm(1) by (cases nm) auto
  with nm(2) have "is_ident_char c" by simp
  then have "\<not> is_ws c" "c \<noteq> CHR ''#''"
    by (simp_all add: ident_char_facts)
  then have "\<not> blank_or_comment (strip_lf l)"
    unfolding shape by (simp add: c blank_or_comment_def)
  moreover have "parse_assign (strip_lf l) = Some (Assign nm ex)"
    unfolding shape using nm ws rhs trail by (rule parse_assign_shape)
  ultimately have "parse_line l = Some (Assign nm ex)"
    by (simp add: parse_line_def)
  then show ?thesis
    by (simp add: format_version_str_lines [OF line] parse_line_header)
qed

lemma py_exec_version_str:
  assumes "parse_lines (file_lines (format_version_str l)) = Some [Skip, Assign nm ex]"
  shows "py_exec fs (Some (format_version_str l)) Map.empty =
    (case eval_expr fs [''__builtins__'' \<mapsto> Builtins] ex of Inl e \<Rightarrow> Inl e
     | Inr v \<Rightarrow> Inr [''__builtins__'' \<mapsto> Builtins, nm \<mapsto> v])"
  using assms by (simp split: sum.splits)

lemma version_marker_name:
  "version_marker \<noteq> []" "list_all is_ident_char version_marker"
  "\<not> is_digit (hd version_marker)" "version_marker \<notin> set reserved"
  by (simp_all add: version_marker_def is_ident_char_def is_ident_start_def is_digit_def
      reserved_def)

subsection \<open>Literals without escapes\<close>

lemma short_body_plain:
  assumes "list_all (\<lambda>c. c \<noteq> q \<and> c \<noteq> BSL \<and> \<not> bad_char c) body"
  shows "short_body q (body @ q # rest) = Some (body, rest)"
  using assms by (induction body) simp_all

lemma unescape_plain: "BSL \<notin> set body \<Longrightarrow> unescape body = Some body"
  by (induction body) auto

lemma parse_string_plain:
  assumes q: "is_quote q"
    and body: "list_all (\<lambda>c. c \<noteq> q \<and> c \<noteq> BSL \<and> \<not> bad_char c) body"
    and rest: "body = [] \<longrightarrow> rest = [] \<or> hd rest \<noteq> q"
  shows "parse_string (q # body @ q # rest) = Some (body, rest)"
proof -
  have "q \<notin> set ''rRuU''"
    using q by (auto simp: is_quote_def)
  moreover have "take 2 (body @ q # rest) \<noteq> [q, q]"
  proof (cases body)
    case Nil
    with rest show ?thesis by (cases rest) auto
  next
    case (Cons c b)
    with body show ?thesis by auto
  qed
  moreover have "BSL \<notin> set body"
    using body by (auto simp: list_all_iff)
  ultimately show ?thesis
    using q short_body_plain [OF body, of rest]
    by (simp add: parse_string_def unescape_plain)
qed

subsection \<open>Facts shared by the claims\<close>

text \<open>What \<open>get_version\<close> returns once the script is read and the evaluation completes.\<close>

lemma get_version_lookup:
  assumes "open_text fs ''thermod-monitor-mqtt'' = Inr script"
    and "py_exec fs (scan_lines (file_lines script)) Map.empty = Inr ns"
  shows "get_version fs = (case ns ''__version__'' of None \<Rightarrow> Inl KeyError | Some v \<Rightarrow> Inr v)"
  using assms by (simp add: get_version_def)

lemma get_version_error:
  assumes "open_text fs ''thermod-monitor-mqtt'' = Inr script"
    and "py_exec fs (scan_lines (file_lines script)) Map.empty = Inl e"
  shows "get_version fs = Inl e"
  using assms by (simp add: get_version_def)

lemma setup_py_error: "get_version fs = Inl e \<Longrightarrow> setup_py fs = Inl e"
  by (simp add: setup_py_def)

lemma setup_py_args:
  assumes "setup_py fs = Inr args"
  shows "\<exists>v txt. get_version fs = Inr v \<and> get_readme fs = Inr txt
           \<and> version args = v \<and> long_description args = txt
           \<and> name args = ''thermod-monitor-mqtt''
           \<and> scripts args = [''thermod-monitor-mqtt'']
           \<and> python_requires args = ''>=3.5''
           \<and> install_requires args =
                 [''thermod >=1.0.0, <2.0.0'', ''requests >=2.20.0'', ''paho-mqtt >=1.5.0'']"
  using assms by (auto simp: setup_py_def split: sum.splits)

lemma get_readme_text:
  "fs ''README.md'' = Some stored \<Longrightarrow> get_readme fs = Inr (universal_newlines stored)"
  by (simp add: get_readme_def open_text_def)

text \<open>
  The first line with the marker, when it is an assignment that the fragment reads:
  the evaluation binds the name to the value of the expression.
\<close>

lemma py_exec_first_assignment:
  assumes "open_text fs ''thermod-monitor-mqtt'' = Inr script"
    and "file_lines script = pre @ line # post"
    and "list_all (\<lambda>l. \<not> prefix version_marker l) pre"
    and "strip_lf line = (version_marker @ sfx) @ ws1 @ CHR ''='' # ws2 @ rhs"
    and "list_all is_ident_char sfx"
    and "list_all is_ws ws1" and "list_all is_ws ws2"
    and "parse_expr rhs = Some (ex, trail)" and "blank_or_comment trail"
  shows "py_exec fs (scan_lines (file_lines script)) Map.empty =
    (case eval_expr fs [''__builtins__'' \<mapsto> Builtins] ex of Inl e \<Rightarrow> Inl e
     | Inr v \<Rightarrow> Inr [''__builtins__'' \<mapsto> Builtins, version_marker @ sfx \<mapsto> v])"
proof -
  have nm: "version_marker @ sfx \<noteq> []" "list_all is_ident_char (version_marker @ sfx)"
    "\<not> is_digit (hd (version_marker @ sfx))" "version_marker @ sfx \<notin> set reserved"
    using assms(5) version_marker_name(2)
    by (simp_all add: version_marker_def is_digit_def reserved_def)
  have "line \<in> set (file_lines script)"
    unfolding assms(2) by simp
  then have line: "line \<noteq> []" "LF \<notin> set (butlast line)"
    using file_lines_line by blast+
  have "prefix version_marker (strip_lf line)"
    unfolding assms(4) by simp
  then have "prefix version_marker line"
    using strip_lf_prefix prefix_order.trans by blast
  with assms(3) have "scan_lines (file_lines script) = Some (format_version_str line)"
    unfolding assms(2) by (rule scan_lines_first)
  moreover have "parse_lines (file_lines (format_version_str line))
      = Some [Skip, Assign (version_marker @ sfx) ex]"
    using line assms(4) nm assms(6-9) by (rule parse_version_str)
  ultimately show ?thesis
    by (simp only: py_exec_version_str)
qed

lemmas sample_defs =
  example_files_def example_script_def example_readme_def release_line_def remark_line_def
  other_files_def other_script_def two_versions_files_def two_versions_script_def
  no_version_files_def no_version_script_def extra_name_files_def extra_name_line_def
  escaped_files_def escaped_script_def self_read_line_def self_read_a_def self_read_b_def
  crlf_readme_def crlf_files_def

lemmas run_defs =
  get_version_def get_readme_def setup_py_def open_text_def first_version_line_def
  version_marker_def format_version_str_def coding_header_def LF_def CR_def BSL_def
  parse_line_def strip_lf_def blank_or_comment_def bad_char_def parse_assign_def
  parse_expr_def parse_string_def
  is_ws_def is_digit_def is_ident_start_def is_ident_char_def is_quote_def reserved_def
  simple_escape_def is_octal_def is_hex_def digit_val_def number_def utf8_def code_point_def

lemma setup_py_example: "setup_py example_files = Inr example_args"
  by (simp add: sample_defs run_defs example_args_def)

text \<open>A tabulator and an escape in the literal, and lines stored with CR LF.\<close>

lemma get_version_escaped:
  "get_version escaped_files = Inr (Str (''1.0'' @ CHR 0x09 # ''rc1''))"
  by code_simp

text \<open>
  An assignment of a literal to a longer name that starts with the marker, such as
  \<^verbatim>\<open>__version__extra\<close>, is selected by the scan and leaves \<^verbatim>\<open>__version__\<close> unbound.
\<close>

lemma get_version_longer_name:
  assumes "open_text fs ''thermod-monitor-mqtt'' = Inr script"
    and "file_lines script = pre @ line # post"
    and "list_all (\<lambda>l. \<not> prefix version_marker l) pre"
    and "strip_lf line = (version_marker @ sfx) @ ws1 @ CHR ''='' # ws2 @ rhs"
    and "sfx \<noteq> []" and "list_all is_ident_char sfx"
    and "list_all is_ws ws1" and "list_all is_ws ws2"
    and "parse_string rhs = Some (v, trail)" and "blank_or_comment trail"
  shows "get_version fs = Inl KeyError"
proof -
  have ex: "parse_expr rhs = Some (Literal v, trail)"
    using assms(9) by (rule parse_expr_literal)
  from py_exec_first_assignment [OF assms(1,2,3,4,6,7,8) ex assms(10)]
  have "py_exec fs (scan_lines (file_lines script)) Map.empty =
      (case eval_expr fs [''__builtins__'' \<mapsto> Builtins] (Literal v) of Inl e \<Rightarrow> Inl e
       | Inr x \<Rightarrow> Inr [''__builtins__'' \<mapsto> Builtins, version_marker @ sfx \<mapsto> x])" .
  then have "py_exec fs (scan_lines (file_lines script)) Map.empty
      = Inr [''__builtins__'' \<mapsto> Builtins, version_marker @ sfx \<mapsto> Str v]"
    by simp
  with assms(1) have "get_version fs =
      (case [''__builtins__'' \<mapsto> Builtins, version_marker @ sfx \<mapsto> Str v] ''__version__'' of
         None \<Rightarrow> Inl KeyError | Some v \<Rightarrow> Inr v)"
    by (rule get_version_lookup)
  moreover have "version_marker @ sfx \<noteq> ''__version__''"
    using assms(5) by (simp add: version_marker_def)
  ultimately show ?thesis
    by simp
qed

section \<open>The claims\<close>




text \<open>
  C2. When no line of the file \<^verbatim>\<open>thermod-monitor-mqtt\<close> starts with \<^verbatim>\<open>__version__\<close>,
  the scan leaves \<^verbatim>\<open>version_str\<close> at \<^verbatim>\<open>None\<close>, the evaluation of it raises, and
  the script ends with that error before \<^verbatim>\<open>setup\<close> is called.
\<close>

theorem get_version_no_marker:
  assumes "open_text fs ''thermod-monitor-mqtt'' = Inr script"
    and "list_all (\<lambda>l. \<not> prefix version_marker l) (file_lines script)"
  shows "scan_lines (file_lines script) = None
    \<and> get_version fs = Inl TypeError \<and> setup_py fs = Inl TypeError"
proof -
  have none: "scan_lines (file_lines script) = None"
    using assms(2) by (rule scan_lines_none)
  then have "py_exec fs (scan_lines (file_lines script)) Map.empty = Inl TypeError"
    by simp
  with assms(1) have "get_version fs = Inl TypeError"
    by (rule get_version_error)
  with none show ?thesis
    by (simp add: setup_py_error)
qed

theorem get_version_no_marker_witness:
  "open_text no_version_files ''thermod-monitor-mqtt'' = Inr no_version_script
   \<and> list_all (\<lambda>l. \<not> prefix version_marker l) (file_lines no_version_script)
   \<and> scan_lines (file_lines no_version_script) = None
   \<and> get_version no_version_files = Inl TypeError
   \<and> setup_py no_version_files = Inl TypeError"
proof -
  have h1: "open_text no_version_files ''thermod-monitor-mqtt'' = Inr no_version_script"
    by (simp add: sample_defs open_text_def LF_def CR_def)
  have h2: "list_all (\<lambda>l. \<not> prefix version_marker l) (file_lines no_version_script)"
    by (simp add: sample_defs LF_def version_marker_def)
  from get_version_no_marker [where fs = no_version_files, OF h1 h2] h1 h2 show ?thesis
    by (intro conjI) simp_all
qed

text \<open>
  C3 (as amended). The \<^verbatim>\<open>long_description\<close> passed to \<^verbatim>\<open>setup\<close> is what
  \<open>get_readme\<close> returns: the contents of \<^verbatim>\<open>README.md\<close> as the text-mode read
  delivers them, with every CR LF and every single CR replaced by LF and nothing else
  changed. It has no carriage return, and for a file without carriage returns it is
  the contents character for character.
\<close>

theorem long_description_text_mode:
  assumes "fs ''README.md'' = Some stored" and "setup_py fs = Inr args"
  shows "get_readme fs = Inr (long_description args)
    \<and> long_description args = universal_newlines stored
    \<and> CR \<notin> set (long_description args)
    \<and> (CR \<notin> set stored \<longrightarrow> long_description args = stored)"
proof -
  have readme: "get_readme fs = Inr (universal_newlines stored)"
    using assms(1) by (rule get_readme_text)
  moreover obtain t where "get_readme fs = Inr t" "long_description args = t"
    using setup_py_args [OF assms(2)] by blast
  ultimately have "long_description args = universal_newlines stored"
    by simp
  with readme show ?thesis
    by (simp add: universal_newlines_no_CR universal_newlines_id)
qed

theorem long_description_text_mode_witness:
  "example_files ''README.md'' = Some example_readme
   \<and> setup_py example_files = Inr example_args
   \<and> CR \<notin> set example_readme
   \<and> get_readme example_files = Inr (long_description example_args)
   \<and> long_description example_args = example_readme"
proof -
  have h1: "example_files ''README.md'' = Some example_readme"
    by (simp add: example_files_def)
  have h3: "CR \<notin> set example_readme"
    by (simp add: example_readme_def CR_def LF_def)
  note t = long_description_text_mode [where fs = example_files, OF h1 setup_py_example]
  from t have c1: "get_readme example_files = Inr (long_description example_args)"
    by (rule conjunct1)
  from t h3 have c2: "long_description example_args = example_readme"
    by blast
  from h1 setup_py_example h3 c1 c2 show ?thesis
    by (intro conjI)
qed

text \<open>
  C3 as stated fails: for a \<^verbatim>\<open>README.md\<close> stored with lines ending in CR LF,
  \<open>get_readme\<close> returns, and \<^verbatim>\<open>setup\<close> receives, a text that differs from the
  contents of the file.
\<close>

theorem long_description_verbatim_counterexample:
  "crlf_files ''README.md'' = Some crlf_readme
   \<and> get_readme crlf_files = Inr example_readme
   \<and> setup_py crlf_files = Inr example_args
   \<and> long_description example_args \<noteq> crlf_readme"
  by (simp add: sample_defs run_defs example_args_def)

text \<open>
  C4. The runtime dependencies passed to \<^verbatim>\<open>setup\<close> are exactly
  \<^verbatim>\<open>thermod >=1.0.0, <2.0.0\<close>, \<^verbatim>\<open>requests >=2.20.0\<close> and \<^verbatim>\<open>paho-mqtt >=1.5.0\<close>.
\<close>

theorem install_requires_exact:
  assumes "setup_py fs = Inr args"
  shows "install_requires args =
    [''thermod >=1.0.0, <2.0.0'', ''requests >=2.20.0'', ''paho-mqtt >=1.5.0'']"
  using setup_py_args [OF assms] by blast

theorem install_requires_exact_witness:
  "setup_py example_files = Inr example_args
   \<and> install_requires example_args =
     [''thermod >=1.0.0, <2.0.0'', ''requests >=2.20.0'', ''paho-mqtt >=1.5.0'']"
  using install_requires_exact [OF setup_py_example] setup_py_example
  by (intro conjI)

text \<open>
  C5. Exactly one script is declared for installation, and it is named as the
  package: \<^verbatim>\<open>thermod-monitor-mqtt\<close>.
\<close>

theorem scripts_singleton_name:
  assumes "setup_py fs = Inr args"
  shows "scripts args = [name args] \<and> name args = ''thermod-monitor-mqtt''
    \<and> length (scripts args) = 1"
proof -
  from setup_py_args [OF assms]
  have "name args = ''thermod-monitor-mqtt''" and "scripts args = [''thermod-monitor-mqtt'']"
    by blast+
  then show ?thesis
    by simp
qed

theorem scripts_singleton_name_witness:
  "setup_py example_files = Inr example_args
   \<and> scripts example_args = [name example_args]
   \<and> name example_args = ''thermod-monitor-mqtt''
   \<and> length (scripts example_args) = 1"
  using scripts_singleton_name [OF setup_py_example] setup_py_example
  by (intro conjI) simp_all

text \<open>C6. The metadata requires an interpreter of version 3.5 at least.\<close>

theorem python_requires_minimum:
  assumes "setup_py fs = Inr args"
  shows "python_requires args = ''>=3.5''"
  using setup_py_args [OF assms] by blast

theorem python_requires_minimum_witness:
  "setup_py example_files = Inr example_args \<and> python_requires example_args = ''>=3.5''"
  using python_requires_minimum [OF setup_py_example] setup_py_example
  by (intro conjI)




text \<open>
  C8. A line in which \<^verbatim>\<open>__version__\<close> does not occur at index 0 is never selected by
  the scan: the scan goes on as if the line were absent, and its result is never
  built from that line.
\<close>

theorem scan_ignores_unanchored_marker:
  assumes "str_find l version_marker \<noteq> 0"
  shows "scan_lines (pre @ l # post) = scan_lines (pre @ post)
    \<and> scan_lines ls \<noteq> Some (format_version_str l)"
proof -
  have np: "\<not> prefix version_marker l"
    using assms by (simp add: str_find_zero_iff)
  then have "scan_lines (pre @ l # post) = scan_lines (pre @ post)"
    by (rule scan_lines_skip)
  moreover have "scan_lines ls \<noteq> Some (format_version_str l)"
  proof
    assume "scan_lines ls = Some (format_version_str l)"
    then obtain l' where "prefix version_marker l'" "format_version_str l = format_version_str l'"
      using scan_lines_selected by blast
    with np show False
      by (simp add: format_version_str_inject)
  qed
  ultimately show ?thesis
    by simp
qed

theorem scan_ignores_unanchored_marker_witness:
  "str_find remark_line version_marker = 2
   \<and> scan_lines ([''#!/usr/bin/env python3'' @ [LF]] @ remark_line # [release_line])
       = scan_lines ([''#!/usr/bin/env python3'' @ [LF]] @ [release_line])
   \<and> scan_lines (file_lines example_script) \<noteq> Some (format_version_str remark_line)"
proof -
  have a: "str_find remark_line version_marker = 2"
    by (simp add: remark_line_def version_marker_def LF_def)
  then have h: "str_find remark_line version_marker \<noteq> 0"
    by simp
  from scan_ignores_unanchored_marker [OF h] a show ?thesis
    by (intro conjI) simp_all
qed



end
